theory Spec2Isabelle
  imports Complex_Main
begin

section \<open>Errors\<close>

text \<open>
  Every exception the modelled code can raise is a value. \<open>ValueError\<close> is what
  \<^verbatim>\<open>int()\<close> and \<^verbatim>\<open>float()\<close> raise on text they cannot read, \<open>AttributeError\<close> is a method
  call on \<^verbatim>\<open>None\<close>, \<open>PlaywrightTimeoutError\<close> and \<open>PlaywrightError\<close> are what the browser
  automation library raises (a wait that runs out, a launch or an operation that fails).
\<close>

datatype error = ValueError | AttributeError | PlaywrightTimeoutError | PlaywrightError

section \<open>Text and numbers of the host language\<close>

text \<open>
  A Python \<^verbatim>\<open>str\<close> is a sequence of code points. The model is \<open>string\<close> with one
  \<open>char\<close> per code point, so it covers the code points below 256; that range holds
  every character the source names: the comma, the percent sign and the currency sign
  U+00A5 of \<^verbatim>\<open>replace('\<yen>', '')\<close>.
\<close>

definition yen :: char where
  "yen = CHR 0xA5"

text \<open>\<^verbatim>\<open>str.isspace\<close> on the code points below 256, which is what \<^verbatim>\<open>str.strip()\<close> removes.\<close>

definition isspace :: "char \<Rightarrow> bool" where
  "isspace c = (let n = (of_char c :: nat)
                in (9 \<le> n \<and> n \<le> 13) \<or> (28 \<le> n \<and> n \<le> 32) \<or> n = 133 \<or> n = 160)"

definition strip :: "string \<Rightarrow> string" where
  "strip s = rev (dropWhile isspace (rev (dropWhile isspace s)))"

text \<open>\<^verbatim>\<open>s.replace(old, new)\<close> for a single character \<open>old\<close>.\<close>

definition replace :: "char \<Rightarrow> string \<Rightarrow> string \<Rightarrow> string" where
  "replace old new s = concat (map (\<lambda>c. if c = old then new else [c]) s)"

text \<open>
  \<^verbatim>\<open>int(s)\<close> and \<^verbatim>\<open>float(s)\<close> skip white space at both ends themselves. They map a
  white-space code point above 126 to a blank first and then skip the C white space, so the
  control characters 28 to 31 are not skipped by them although \<open>strip\<close> removes them.
\<close>

definition num_isspace :: "char \<Rightarrow> bool" where
  "num_isspace c = (let n = (of_char c :: nat)
                    in (9 \<le> n \<and> n \<le> 13) \<or> n = 32 \<or> n = 133 \<or> n = 160)"

definition num_strip :: "string \<Rightarrow> string" where
  "num_strip s = rev (dropWhile num_isspace (rev (dropWhile num_isspace s)))"

definition is_digit :: "char \<Rightarrow> bool" where
  "is_digit c = (48 \<le> (of_char c :: nat) \<and> (of_char c :: nat) \<le> 57)"

definition digit_val :: "char \<Rightarrow> nat" where
  "digit_val c = of_char c - 48"

text \<open>
  A digit part is a digit followed by digits, each of which may be preceded by one
  underscore: \<^verbatim>\<open>digit (["_"] digit)*\<close>. \<open>digits_from acc s\<close> reads the rest of a digit part
  after its first digit.
\<close>

fun digits_from :: "nat \<Rightarrow> string \<Rightarrow> nat option" where
  "digits_from acc [] = Some acc"
| "digits_from acc [c] = (if is_digit c then Some (10 * acc + digit_val c) else None)"
| "digits_from acc (c # d # ds) =
     (if is_digit c then digits_from (10 * acc + digit_val c) (d # ds)
      else if c = CHR ''_'' \<and> is_digit d then digits_from (10 * acc + digit_val d) ds
      else None)"

definition digitpart :: "string \<Rightarrow> nat option" where
  "digitpart s = (case s of [] \<Rightarrow> None
                  | c # cs \<Rightarrow> if is_digit c then digits_from (digit_val c) cs else None)"

text \<open>
  \<^verbatim>\<open>int(s)\<close> in base ten: white space, an optional sign, a digit part, white space.
  \<open>None\<close> is the \<^verbatim>\<open>ValueError\<close>. The interpreter's limit on the number of digits of
  one literal is left out.
\<close>

definition py_int :: "string \<Rightarrow> int option" where
  "py_int s =
     (case num_strip s of
        [] \<Rightarrow> None
      | c # cs \<Rightarrow>
          if c = CHR ''-'' then map_option (\<lambda>n. - int n) (digitpart cs)
          else if c = CHR ''+'' then map_option int (digitpart cs)
          else map_option int (digitpart (c # cs)))"

text \<open>
  A float is a finite number, an infinity or a NaN. Finite floats are modelled by the
  real number they denote: rounding to 53 bits and overflow to infinity are left out.
  The comparisons of the source are against the integers 1000 and 10000, which compare
  exactly with every float.
\<close>

datatype pyfloat = Finite real | PosInf | NegInf | NaN

text \<open>What \<^verbatim>\<open>float(s)\<close> reads before it becomes a value: sign, decimal digits and a power of ten.\<close>

datatype float_lit = LitDec bool nat int | LitInf bool | LitNan

definition lower :: "string \<Rightarrow> string" where
  "lower s = map (\<lambda>c. if 65 \<le> (of_char c :: nat) \<and> (of_char c :: nat) \<le> 90
                       then char_of ((of_char c :: nat) + 32) else c) s"

definition is_exp_mark :: "char \<Rightarrow> bool" where
  "is_exp_mark c = (c = CHR ''e'' \<or> c = CHR ''E'')"

text \<open>The exponent after the \<open>e\<close>: an optional sign and a digit part.\<close>

definition exponent :: "string \<Rightarrow> int option" where
  "exponent s =
     (case s of
        [] \<Rightarrow> None
      | c # cs \<Rightarrow>
          if c = CHR ''-'' then map_option (\<lambda>n. - int n) (digitpart cs)
          else if c = CHR ''+'' then map_option int (digitpart cs)
          else map_option int (digitpart (c # cs)))"

text \<open>
  The mantissa: \<^verbatim>\<open>[digitpart] "." digitpart | digitpart ["."]\<close>. The result is the number
  the digits spell without the point, and how many of them stand after the point.
\<close>

definition mantissa :: "string \<Rightarrow> (nat \<times> nat) option" where
  "mantissa s =
     (let ip = takeWhile (\<lambda>c. c \<noteq> CHR ''.'') s;
          rest = dropWhile (\<lambda>c. c \<noteq> CHR ''.'') s
      in case rest of
           [] \<Rightarrow> map_option (\<lambda>n. (n, 0)) (digitpart ip)
         | dot # fp \<Rightarrow>
             if fp = [] then map_option (\<lambda>n. (n, 0)) (digitpart ip)
             else (case digitpart fp of
                     None \<Rightarrow> None
                   | Some f \<Rightarrow>
                       let k = length (filter is_digit fp)
                       in if ip = [] then Some (f, k)
                          else map_option (\<lambda>n. (n * 10 ^ k + f, k)) (digitpart ip)))"

definition float_number :: "bool \<Rightarrow> string \<Rightarrow> float_lit option" where
  "float_number neg s =
     (let m = takeWhile (\<lambda>c. \<not> is_exp_mark c) s;
          rest = dropWhile (\<lambda>c. \<not> is_exp_mark c) s
      in case mantissa m of
           None \<Rightarrow> None
         | Some (n, k) \<Rightarrow>
             (case rest of
                [] \<Rightarrow> Some (LitDec neg n (- int k))
              | e # ex \<Rightarrow> map_option (\<lambda>x. LitDec neg n (x - int k)) (exponent ex)))"

definition float_body :: "bool \<Rightarrow> string \<Rightarrow> float_lit option" where
  "float_body neg s =
     (if lower s = ''inf'' \<or> lower s = ''infinity'' then Some (LitInf neg)
      else if lower s = ''nan'' then Some LitNan
      else float_number neg s)"

definition float_literal :: "string \<Rightarrow> float_lit option" where
  "float_literal s =
     (case num_strip s of
        [] \<Rightarrow> None
      | c # cs \<Rightarrow>
          if c = CHR ''-'' then float_body True cs
          else if c = CHR ''+'' then float_body False cs
          else float_body False (c # cs))"

fun float_of_lit :: "float_lit \<Rightarrow> pyfloat" where
  "float_of_lit (LitDec neg n e) =
     Finite ((if neg then - 1 else 1) * real n *
             (if 0 \<le> e then 10 ^ nat e else 1 / 10 ^ nat (- e)))"
| "float_of_lit (LitInf neg) = (if neg then NegInf else PosInf)"
| "float_of_lit LitNan = NaN"

text \<open>\<^verbatim>\<open>float(s)\<close>; \<open>None\<close> is the \<^verbatim>\<open>ValueError\<close>.\<close>

definition py_float :: "string \<Rightarrow> pyfloat option" where
  "py_float s = map_option float_of_lit (float_literal s)"

text \<open>
  Comparison of a float with a finite number, multiplication by a finite number and
  division by a positive one. Every comparison with a NaN is false.
\<close>

fun float_gt :: "pyfloat \<Rightarrow> real \<Rightarrow> bool" where
  "float_gt (Finite x) y = (x > y)"
| "float_gt PosInf y = True"
| "float_gt NegInf y = False"
| "float_gt NaN y = False"

fun float_lt :: "pyfloat \<Rightarrow> real \<Rightarrow> bool" where
  "float_lt (Finite x) y = (x < y)"
| "float_lt PosInf y = False"
| "float_lt NegInf y = True"
| "float_lt NaN y = False"

fun float_mul :: "pyfloat \<Rightarrow> real \<Rightarrow> pyfloat" where
  "float_mul (Finite x) c = Finite (x * c)"
| "float_mul PosInf c = (if 0 < c then PosInf else if c < 0 then NegInf else NaN)"
| "float_mul NegInf c = (if 0 < c then NegInf else if c < 0 then PosInf else NaN)"
| "float_mul NaN c = NaN"

fun float_div :: "pyfloat \<Rightarrow> real \<Rightarrow> pyfloat" where
  "float_div (Finite x) c = Finite (x / c)"
| "float_div PosInf c = PosInf"
| "float_div NegInf c = NegInf"
| "float_div NaN c = NaN"

section \<open>Request authentication (\<^verbatim>\<open>validate_api_key\<close>, \<^verbatim>\<open>api_query\<close>)\<close>

text \<open>
  The two credentials of \<^verbatim>\<open>config_v3.py\<close> come from the environment
  (\<^verbatim>\<open>os.environ.get('DEFAULT_AUTH_KEY', 'your-auth-key')\<close>), so they are fields of a
  configuration record rather than constants.
\<close>

record config =
  DEFAULT_AUTH_KEY :: string
  DEFAULT_APP_ID :: string

text \<open>
  A value of the decoded JSON body. \<^verbatim>\<open>data.get(k)\<close> gives \<^verbatim>\<open>None\<close> for an absent key,
  which is also what a JSON \<^verbatim>\<open>null\<close> decodes to.
\<close>

datatype jval = JNull | JBool bool | JNum int | JStr string

type_synonym jdict = "(string \<times> jval) list"

definition dict_get :: "jdict \<Rightarrow> string \<Rightarrow> jval" where
  "dict_get d k = (case map_of d k of None \<Rightarrow> JNull | Some v \<Rightarrow> v)"

definition dict_get_default :: "jdict \<Rightarrow> string \<Rightarrow> jval \<Rightarrow> jval" where
  "dict_get_default d k dflt = (case map_of d k of None \<Rightarrow> dflt | Some v \<Rightarrow> v)"

text \<open>Python truthiness, as \<^verbatim>\<open>all([...])\<close> reads it.\<close>

fun truthy :: "jval \<Rightarrow> bool" where
  "truthy JNull = False"
| "truthy (JBool b) = b"
| "truthy (JNum n) = (n \<noteq> 0)"
| "truthy (JStr s) = (s \<noteq> [])"

definition validate_api_key :: "config \<Rightarrow> jval \<Rightarrow> jval \<Rightarrow> bool" where
  "validate_api_key cfg auth_key app_id =
     (auth_key = JStr (DEFAULT_AUTH_KEY cfg) \<and> app_id = JStr (DEFAULT_APP_ID cfg))"

text \<open>
  The handler answers with a status code and the \<^verbatim>\<open>error_type\<close> of the body
  (\<open>''success''\<close> for the 200 answer). The query itself is the parameter \<open>qd\<close>; the
  handler catches whatever it raises and answers 500.
\<close>

definition api_query ::
  "config \<Rightarrow> (jval \<Rightarrow> jval \<Rightarrow> jval \<Rightarrow> jval \<Rightarrow> error + 'r) \<Rightarrow> jdict option \<Rightarrow> nat \<times> string"
where
  "api_query cfg qd data =
     (case data of
        None \<Rightarrow> (400, ''invalid_request'')
      | Some d \<Rightarrow>
          if d = [] then (400, ''invalid_request'')
          else
            let project_id = dict_get d ''project_id'';
                uk_code = dict_get d ''uk_code'';
                start_date = dict_get d ''start_date'';
                end_date = dict_get d ''end_date'';
                auth_key = dict_get_default d ''auth_key'' (JStr (DEFAULT_AUTH_KEY cfg));
                app_id = dict_get_default d ''app_id'' (JStr (DEFAULT_APP_ID cfg))
            in if \<not> list_all truthy [project_id, uk_code, start_date, end_date]
               then (400, ''missing_parameters'')
               else if \<not> validate_api_key cfg auth_key app_id
               then (401, ''unauthorized'')
               else (case qd project_id uk_code start_date end_date of
                       Inl e \<Rightarrow> (500, ''query_failed'')
                     | Inr r \<Rightarrow> (200, ''success'')))"

section \<open>The query pipeline (\<^verbatim>\<open>query_data\<close>)\<close>

text \<open>
  What the pipeline reads from the remote page once the results table has appeared:
  the value \<^verbatim>\<open>page.text_content\<close> returned for each of the four aggregate elements
  (\<^verbatim>\<open>None\<close> or a string), and for every \<^verbatim>\<open>tr\<close> of the table body the text of its
  \<^verbatim>\<open>td\<close> cells, in order.
\<close>

record page_content =
  total_count_text :: "string option"
  total_amount_text :: "string option"
  average_amount_text :: "string option"
  success_rate_text :: "string option"
  rows :: "string list list"

record stats =
  total_count :: int
  total_amount :: pyfloat
  average_amount :: pyfloat
  success_rate :: pyfloat

text \<open>
  One entry of \<^verbatim>\<open>results\<close>. The key \<^verbatim>\<open>'id'\<close> is the field \<open>id'\<close>; the key
  \<^verbatim>\<open>'profit'\<close> is absent until the profit loop has set it.
\<close>

record result =
  id' :: string
  date :: string
  amount :: pyfloat
  status :: string
  details :: string
  profit :: "pyfloat option"

text \<open>\<^verbatim>\<open>PROFIT_COEFFICIENTS\<close> of \<^verbatim>\<open>config_v3.py\<close>; the key \<^verbatim>\<open>'default'\<close> is \<open>default_value\<close>.\<close>

record coefficients =
  default_value :: real
  high_value :: real
  low_value :: real
  special_case :: real

definition PROFIT_COEFFICIENTS :: coefficients where
  "PROFIT_COEFFICIENTS =
     \<lparr>default_value = 1.0, high_value = 1.2, low_value = 0.8, special_case = 1.5\<rparr>"

text \<open>
  The three cleaning expressions of the source: the count loses surrounding white space
  and commas, an amount loses the currency sign as well, the rate loses surrounding white
  space and percent signs.
\<close>

definition clean_count :: "string \<Rightarrow> string" where
  "clean_count s = replace CHR '','' [] (strip s)"

definition clean_amount :: "string \<Rightarrow> string" where
  "clean_amount s = replace yen [] (replace CHR '','' [] (strip s))"

definition clean_rate :: "string \<Rightarrow> string" where
  "clean_rate s = replace CHR ''%'' [] (strip s)"

text \<open>
  The four aggregate fields, lines 237 to 242. A text that is \<^verbatim>\<open>None\<close> or empty is falsy
  and gives 0; any other text is cleaned and coerced, and the coercion may raise. For the
  three float fields the default is the integer 0 of the source, written here as the
  float 0.
\<close>

definition stat_count :: "string option \<Rightarrow> error + int" where
  "stat_count txt =
     (case txt of
        None \<Rightarrow> Inr 0
      | Some s \<Rightarrow>
          if s = [] then Inr 0
          else (case py_int (clean_count s) of
                  None \<Rightarrow> Inl ValueError
                | Some n \<Rightarrow> Inr n))"

definition stat_amount :: "string option \<Rightarrow> error + pyfloat" where
  "stat_amount txt =
     (case txt of
        None \<Rightarrow> Inr (Finite 0)
      | Some s \<Rightarrow>
          if s = [] then Inr (Finite 0)
          else (case py_float (clean_amount s) of
                  None \<Rightarrow> Inl ValueError
                | Some x \<Rightarrow> Inr x))"

definition stat_rate :: "string option \<Rightarrow> error + pyfloat" where
  "stat_rate txt =
     (case txt of
        None \<Rightarrow> Inr (Finite 0)
      | Some s \<Rightarrow>
          if s = [] then Inr (Finite 0)
          else (case py_float (clean_rate s) of
                  None \<Rightarrow> Inl ValueError
                | Some x \<Rightarrow> Inr (float_div x 100)))"

text \<open>The dictionary display evaluates its values in order; the first raise leaves it.\<close>

definition parse_stats :: "page_content \<Rightarrow> error + stats" where
  "parse_stats page =
     (case stat_count (total_count_text page) of
        Inl e \<Rightarrow> Inl e
      | Inr tc \<Rightarrow>
          (case stat_amount (total_amount_text page) of
             Inl e \<Rightarrow> Inl e
           | Inr ta \<Rightarrow>
               (case stat_amount (average_amount_text page) of
                  Inl e \<Rightarrow> Inl e
                | Inr aa \<Rightarrow>
                    (case stat_rate (success_rate_text page) of
                       Inl e \<Rightarrow> Inl e
                     | Inr sr \<Rightarrow>
                         Inr \<lparr>total_count = tc, total_amount = ta,
                              average_amount = aa, success_rate = sr\<rparr>))))"

text \<open>
  The entry built from a row of at least five cells, lines 250 to 256, given the float
  its third cell was coerced to.
\<close>

definition row_result :: "string list \<Rightarrow> pyfloat \<Rightarrow> result" where
  "row_result cells a =
     \<lparr>id' = strip (cells ! 0), date = strip (cells ! 1), amount = a,
      status = strip (cells ! 3), details = strip (cells ! 4), profit = None\<rparr>"

text \<open>
  The loop over the table rows, lines 247 to 257: \<open>results\<close> is the list built so far.
  The indices 0 to 4 are read only where the row has at least five cells.
\<close>

fun rows_loop :: "result list \<Rightarrow> string list list \<Rightarrow> error + result list" where
  "rows_loop results [] = Inr results"
| "rows_loop results (cells # rest) =
     (if length cells \<ge> 5 then
        (case py_float (clean_amount (cells ! 2)) of
           None \<Rightarrow> Inl ValueError
         | Some a \<Rightarrow> rows_loop (results @ [row_result cells a]) rest)
      else rows_loop results rest)"

text \<open>The profit loop, lines 269 to 275, on one entry and on the list.\<close>

definition apply_profit :: "result \<Rightarrow> result" where
  "apply_profit r =
     (if float_gt (amount r) 10000
      then r\<lparr>profit := Some (float_mul (amount r) (high_value PROFIT_COEFFICIENTS))\<rparr>
      else if float_lt (amount r) 1000
      then r\<lparr>profit := Some (float_mul (amount r) (low_value PROFIT_COEFFICIENTS))\<rparr>
      else r\<lparr>profit := Some (float_mul (amount r) (default_value PROFIT_COEFFICIENTS))\<rparr>)"

record query_info =
  project_id :: string
  uk_code :: string
  start_date :: string
  end_date :: string
  timestamp :: string

record query_result =
  response_status :: string
  data :: "result list"
  stats :: stats
  query_info :: query_info

text \<open>
  \<open>query_data\<close> without its cache. \<open>fetched\<close> is the outcome of the browser steps
  (acquiring a context, navigation, filling and submitting the form, waiting for the
  results table, reading the texts): the error one of them raised, or the page content.
  Both \<^verbatim>\<open>try\<close> blocks re-raise, so an error leaves the function as it is. \<open>now\<close> is
  \<^verbatim>\<open>datetime.now().isoformat()\<close>.
\<close>

definition query_data ::
  "(error + page_content) \<Rightarrow> string \<Rightarrow> string \<Rightarrow> string \<Rightarrow> string \<Rightarrow> string
     \<Rightarrow> error + query_result"
where
  "query_data fetched now pid code sd ed =
     (case fetched of
        Inl e \<Rightarrow> Inl e
      | Inr page \<Rightarrow>
          (case parse_stats page of
             Inl e \<Rightarrow> Inl e
           | Inr total_stats \<Rightarrow>
               (case rows_loop [] (rows page) of
                  Inl e \<Rightarrow> Inl e
                | Inr results \<Rightarrow>
                    Inr \<lparr>response_status = ''success'',
                         data = map apply_profit results,
                         stats = total_stats,
                         query_info = \<lparr>project_id = pid, uk_code = code, start_date = sd,
                                         end_date = ed, timestamp = now\<rparr>\<rparr>)))"

section \<open>The result cache (\<^verbatim>\<open>cache_result\<close>)\<close>

text \<open>
  \<^verbatim>\<open>query_cache\<close> maps a key to the pair of a result and the time it was stored. Times
  are the readings of \<^verbatim>\<open>time.time()\<close>.
\<close>

type_synonym ('k, 'v) cache = "'k \<rightharpoonup> ('v \<times> real)"

text \<open>The first critical section, lines 133 to 139: the cached result on a hit.\<close>

definition cache_check :: "real \<Rightarrow> ('k, 'v) cache \<Rightarrow> 'k \<Rightarrow> real \<Rightarrow> 'v option" where
  "cache_check timeout query_cache cache_key now =
     (case query_cache cache_key of
        None \<Rightarrow> None
      | Some (result, stored) \<Rightarrow> if now - stored < timeout then Some result else None)"

text \<open>The scan of lines 149 to 152: every key whose age is above the timeout is deleted.\<close>

definition purge :: "real \<Rightarrow> real \<Rightarrow> ('k, 'v) cache \<Rightarrow> ('k, 'v) cache" where
  "purge timeout current_time query_cache =
     (\<lambda>k. case query_cache k of
             None \<Rightarrow> None
           | Some (r, t) \<Rightarrow> if current_time - t > timeout then None else Some (r, t))"

text \<open>
  The second critical section, lines 145 to 152. The clock is read twice: \<open>stored_at\<close> is
  the time paired with the result, \<open>current_time\<close> the time of the scan.
\<close>

definition cache_store ::
  "real \<Rightarrow> ('k, 'v) cache \<Rightarrow> 'k \<Rightarrow> 'v \<Rightarrow> real \<Rightarrow> real \<Rightarrow> ('k, 'v) cache"
where
  "cache_store timeout query_cache cache_key result stored_at current_time =
     purge timeout current_time (query_cache(cache_key \<mapsto> (result, stored_at)))"

text \<open>
  One call of the decorated function by one caller. The outcome is what the call returns
  or raises, the cache after it, and how many times it invoked the wrapped function. An
  error raised by the wrapped function leaves the wrapper before anything is stored.
\<close>

definition wrapper ::
  "real \<Rightarrow> ('k \<Rightarrow> error + 'v) \<Rightarrow> 'k \<Rightarrow> ('k, 'v) cache \<Rightarrow> real \<Rightarrow> real \<Rightarrow> real
     \<Rightarrow> (error + 'v) \<times> ('k, 'v) cache \<times> nat"
where
  "wrapper timeout func cache_key query_cache checked_at stored_at current_time =
     (case cache_check timeout query_cache cache_key checked_at of
        Some result \<Rightarrow> (Inr result, query_cache, 0)
      | None \<Rightarrow>
          (case func cache_key of
             Inl e \<Rightarrow> (Inl e, query_cache, 1)
           | Inr result \<Rightarrow>
               (Inr result,
                cache_store timeout query_cache cache_key result stored_at current_time,
                1)))"

section \<open>Concurrent callers of the cache\<close>

text \<open>
  Two request threads call the decorated function with the same arguments. The wrapper
  holds \<^verbatim>\<open>cache_lock\<close> while it checks the cache and while it stores and scans, and
  holds nothing while it runs the wrapped function, so a call is three steps that are
  atomic with respect to the other caller: the check (lines 133 to 139), the call of the
  wrapped function (line 142) and the store (lines 145 to 152). A schedule lists which
  caller takes its next step, with the clock readings of that step.
\<close>

datatype caller = First | Second

datatype 'v phase = Checking | Computing | Storing 'v | Returned "error + 'v"

record ('k, 'v) system =
  table :: "('k, 'v) cache"
  calls :: nat
  phase_of :: "caller \<Rightarrow> 'v phase"

type_synonym event = "caller \<times> real \<times> real"

definition initial :: "('k, 'v) cache \<Rightarrow> ('k, 'v) system" where
  "initial query_cache = \<lparr>table = query_cache, calls = 0, phase_of = (\<lambda>c. Checking)\<rparr>"

text \<open>
  A check reads the first clock reading of its event; a store pairs the result with the
  first reading and scans with the second. \<open>calls\<close> counts the invocations of the wrapped
  function.
\<close>

definition step ::
  "real \<Rightarrow> ('k \<Rightarrow> error + 'v) \<Rightarrow> 'k \<Rightarrow> ('k, 'v) system \<Rightarrow> event \<Rightarrow> ('k, 'v) system"
where
  "step timeout func cache_key s ev =
     (case ev of (c, t, t') \<Rightarrow>
        (case phase_of s c of
           Checking \<Rightarrow>
             (case cache_check timeout (table s) cache_key t of
                Some result \<Rightarrow> s\<lparr>phase_of := (phase_of s)(c := Returned (Inr result))\<rparr>
              | None \<Rightarrow> s\<lparr>phase_of := (phase_of s)(c := Computing)\<rparr>)
         | Computing \<Rightarrow>
             (case func cache_key of
                Inl e \<Rightarrow>
                  s\<lparr>calls := calls s + 1, phase_of := (phase_of s)(c := Returned (Inl e))\<rparr>
              | Inr result \<Rightarrow>
                  s\<lparr>calls := calls s + 1, phase_of := (phase_of s)(c := Storing result)\<rparr>)
         | Storing result \<Rightarrow>
             s\<lparr>table := cache_store timeout (table s) cache_key result t t',
               phase_of := (phase_of s)(c := Returned (Inr result))\<rparr>
         | Returned x \<Rightarrow> s))"

definition run ::
  "real \<Rightarrow> ('k \<Rightarrow> error + 'v) \<Rightarrow> 'k \<Rightarrow> event list \<Rightarrow> ('k, 'v) system \<Rightarrow> ('k, 'v) system"
where
  "run timeout func cache_key schedule s = foldl (step timeout func cache_key) s schedule"

text \<open>How many callers have observed a miss and not yet called the wrapped function.\<close>

definition pending :: "('k, 'v) system \<Rightarrow> nat" where
  "pending s = (if phase_of s First = Computing then 1 else 0)
             + (if phase_of s Second = Computing then 1 else 0)"

text \<open>How many steps a schedule gives to a caller.\<close>

definition turns :: "caller \<Rightarrow> event list \<Rightarrow> nat" where
  "turns c schedule = length (filter (\<lambda>ev. fst ev = c) schedule)"

section \<open>The browser resource (\<^verbatim>\<open>init_playwright\<close>, \<^verbatim>\<open>get_browser_context\<close>)\<close>

text \<open>
  A browser object with what \<^verbatim>\<open>is_connected()\<close> answers, the two module globals, and
  what the automation library does when asked to start and to launch.
\<close>

record browser =
  browser_id :: nat
  is_connected :: bool

record manager =
  playwright_instance :: "nat option"
  browser_instance :: "browser option"

record library =
  start_outcome :: "error + nat"
  launch_outcome :: "error + browser"

text \<open>
  \<^verbatim>\<open>init_playwright\<close> does something only while \<^verbatim>\<open>playwright_instance is None\<close>. When
  the launch raises, the handler stops the runtime it started and resets the global;
  when the start raises, the global was never assigned.
\<close>

definition init_playwright :: "library \<Rightarrow> manager \<Rightarrow> (error + unit) \<times> manager" where
  "init_playwright lib s =
     (if playwright_instance s = None then
        (case start_outcome lib of
           Inl e \<Rightarrow> (Inl e, s)
         | Inr pw \<Rightarrow>
             (case launch_outcome lib of
                Inl e \<Rightarrow> (Inl e, s\<lparr>playwright_instance := None\<rparr>)
              | Inr b \<Rightarrow> (Inr (), s\<lparr>playwright_instance := Some pw, browser_instance := Some b\<rparr>)))
      else (Inr (), s))"

text \<open>The condition of line 114.\<close>

definition needs_init :: "manager \<Rightarrow> bool" where
  "needs_init s = (case browser_instance s of None \<Rightarrow> True | Some b \<Rightarrow> \<not> is_connected b)"

text \<open>
  \<^verbatim>\<open>get_browser_context\<close>. \<open>new_context\<close> is the library's answer to
  \<^verbatim>\<open>browser_instance.new_context(...)\<close> for a given browser object; on \<^verbatim>\<open>None\<close> the
  call is an \<^verbatim>\<open>AttributeError\<close>.
\<close>

definition get_browser_context ::
  "library \<Rightarrow> (browser \<Rightarrow> error + 'c) \<Rightarrow> manager \<Rightarrow> (error + 'c) \<times> manager"
where
  "get_browser_context lib new_context s =
     (case (if needs_init s then init_playwright lib s else (Inr (), s)) of
        (Inl e, s') \<Rightarrow> (Inl e, s')
      | (Inr u, s') \<Rightarrow>
          (case browser_instance s' of
             None \<Rightarrow> (Inl AttributeError, s')
           | Some b \<Rightarrow> (new_context b, s')))"

text \<open>The probe of the health endpoint, line 370.\<close>

definition playwright_component :: "manager \<Rightarrow> string" where
  "playwright_component s =
     (case browser_instance s of
        None \<Rightarrow> ''error''
      | Some b \<Rightarrow> if is_connected b then ''ok'' else ''error'')"

section \<open>Example inputs\<close>

text \<open>
  A remote page with two result rows, of amounts 12000 and 300, and the aggregate texts
  a well-behaved page shows.
\<close>

definition stub_page :: page_content where
  "stub_page =
     \<lparr>total_count_text = Some ''2'',
      total_amount_text = Some [yen, CHR ''1'', CHR ''2'', CHR '','', CHR ''3'', CHR ''0'', CHR ''0''],
      average_amount_text = Some ''6,150.00'',
      success_rate_text = Some ''95%'',
      rows = [[''R1'', ''2024-01-02'', ''12,000'', ''ok'', ''first''],
              [''R2'', ''2024-01-03'', ''300'', ''ok'', ''second'']]\<rparr>"

text \<open>The same page with a total count that is not a number, and with a row whose amount is not.\<close>

definition unreadable_count_page :: page_content where
  "unreadable_count_page = stub_page\<lparr>total_count_text := Some ''n/a''\<rparr>"

definition unreadable_amount_page :: page_content where
  "unreadable_amount_page =
     stub_page\<lparr>rows := [[''R1'', ''2024-01-02'', ''n/a'', ''ok'', ''first'']]\<rparr>"

text \<open>A table body with a row of four cells and a row of six.\<close>

definition ragged_table :: "string list list" where
  "ragged_table =
     [[''R1'', ''2024-01-02'', ''12,000'', ''ok''],
      [''R2'', ''2024-01-03'', ''300'', ''ok'', ''second'', ''extra'']]"

text \<open>A page whose four aggregate texts are missing or empty and whose table has no rows.\<close>

definition empty_page :: page_content where
  "empty_page =
     \<lparr>total_count_text = None, total_amount_text = Some [], average_amount_text = None,
      success_rate_text = Some [], rows = []\<rparr>"

text \<open>Pages whose aggregate texts carry a sign or symbol the field's cleaning leaves in.\<close>

definition yen_count_page :: page_content where
  "yen_count_page = stub_page\<lparr>total_count_text := Some [yen, CHR ''2'']\<rparr>"

definition comma_rate_page :: page_content where
  "comma_rate_page = stub_page\<lparr>success_rate_text := Some ''1,234%''\<rparr>"


text \<open>A cache with one entry stored at time 100, and one with an older entry beside it.\<close>

definition example_cache :: "(string, nat) cache" where
  "example_cache = [''k'' \<mapsto> (7, 100)]"

definition aged_cache :: "(string, nat) cache" where
  "aged_cache = [''old'' \<mapsto> (1, 100), ''k'' \<mapsto> (7, 900)]"

text \<open>
  A schedule in which both callers check before either stores, split before its first
  store.
\<close>

definition overlapping_prefix :: "event list" where
  "overlapping_prefix = [(First, 10, 10), (Second, 11, 11)]"

definition overlapping_rest :: "event list" where
  "overlapping_rest = [(First, 12, 12), (Second, 13, 13), (First, 14, 15), (Second, 16, 17)]"

section \<open>Properties\<close>

subsection \<open>Evaluation of the text functions\<close>

lemmas text_defs =
  strip_def isspace_def replace_def yen_def clean_count_def clean_amount_def clean_rate_def

lemmas number_defs =
  num_strip_def num_isspace_def digitpart_def is_digit_def digit_val_def py_int_def
  float_literal_def float_body_def lower_def float_number_def is_exp_mark_def mantissa_def
  exponent_def py_float_def

lemma float_12000: "py_float (clean_amount ''12,000'') = Some (Finite 12000)"
  by (simp add: text_defs number_defs)

lemma float_300: "py_float (clean_amount ''300'') = Some (Finite 300)"
  by (simp add: text_defs number_defs)

lemma float_unreadable: "py_float (clean_amount ''n/a'') = None"
  by (simp add: text_defs number_defs)

lemma int_unreadable: "py_int (clean_count ''n/a'') = None"
  by (simp add: text_defs number_defs)

lemma strip_stub:
  "strip ''R1'' = ''R1''" "strip ''R2'' = ''R2''" "strip ''ok'' = ''ok''"
  "strip ''2024-01-02'' = ''2024-01-02''" "strip ''2024-01-03'' = ''2024-01-03''"
  "strip ''first'' = ''first''" "strip ''second'' = ''second''"
  by (simp_all add: strip_def isspace_def)

lemma stub_count: "stat_count (Some ''2'') = Inr 2"
  by (simp add: stat_count_def text_defs number_defs)

lemma stub_total:
  "stat_amount (Some [yen, CHR ''1'', CHR ''2'', CHR '','', CHR ''3'', CHR ''0'', CHR ''0''])
     = Inr (Finite 12300)"
  by (simp add: stat_amount_def text_defs number_defs)

lemma stub_average: "stat_amount (Some ''6,150.00'') = Inr (Finite 6150)"
  by (simp add: stat_amount_def text_defs number_defs)

lemma stub_rate: "stat_rate (Some ''95%'') = Inr (Finite (95 / 100))"
  by (simp add: stat_rate_def text_defs number_defs)

lemma stub_stats:
  "parse_stats stub_page =
     Inr \<lparr>total_count = 2, total_amount = Finite 12300, average_amount = Finite 6150,
          success_rate = Finite (95 / 100)\<rparr>"
  by (simp add: parse_stats_def stub_page_def stub_count stub_total stub_average stub_rate)

lemma stub_rows:
  "rows_loop [] (rows stub_page) =
     Inr [\<lparr>id' = ''R1'', date = ''2024-01-02'', amount = Finite 12000, status = ''ok'',
            details = ''first'', profit = None\<rparr>,
          \<lparr>id' = ''R2'', date = ''2024-01-03'', amount = Finite 300, status = ''ok'',
            details = ''second'', profit = None\<rparr>]"
  by (simp add: stub_page_def float_12000 float_300 row_result_def strip_stub)

subsection \<open>The shape of the pipeline's results\<close>

lemma replace_empty: "replace c [] s = filter (\<lambda>x. x \<noteq> c) s"
  by (induction s) (simp_all add: replace_def)

text \<open>
  The row loop in closed form: it fails exactly when a row of at least five cells has an
  amount that \<open>py_float\<close> cannot read, and otherwise appends one entry per such row.
\<close>

lemma rows_loop_result:
  "rows_loop acc rs =
     (if list_all (\<lambda>c. py_float (clean_amount (c ! 2)) \<noteq> None) (filter (\<lambda>c. 5 \<le> length c) rs)
      then Inr (acc @ map (\<lambda>c. row_result c (the (py_float (clean_amount (c ! 2)))))
                        (filter (\<lambda>c. 5 \<le> length c) rs))
      else Inl ValueError)"
  by (induction rs arbitrary: acc) (auto split: option.splits)

lemma row_result_take: "5 \<le> length c \<Longrightarrow> row_result (take 5 c) a = row_result c a"
  by (simp add: row_result_def)

lemma filter_take_kept:
  "filter (\<lambda>c. 5 \<le> length c) (map (take 5) (filter (\<lambda>c. 5 \<le> length c) rs))
     = map (take 5) (filter (\<lambda>c. 5 \<le> length c) rs)"
  by (induction rs) auto

lemma amount_apply_profit: "amount (apply_profit r) = amount r"
  by (simp add: apply_profit_def)

lemma profit_apply_profit:
  "profit (apply_profit r) =
     Some (float_mul (amount r)
            (if float_gt (amount r) 10000 then 1.2 else if float_lt (amount r) 1000 then 0.8 else 1.0))"
  by (simp add: apply_profit_def PROFIT_COEFFICIENTS_def)

lemma query_data_Inr:
  "query_data fetched now pid code sd ed = Inr q \<Longrightarrow>
     \<exists>page st results. fetched = Inr page \<and> parse_stats page = Inr st
        \<and> rows_loop [] (rows page) = Inr results
        \<and> data q = map apply_profit results \<and> stats q = st"
  by (auto simp: query_data_def split: sum.splits)

lemma stat_count_error: "stat_count t = Inl e \<Longrightarrow> e = ValueError"
  by (auto simp: stat_count_def split: option.splits if_splits)

lemma stat_amount_error: "stat_amount t = Inl e \<Longrightarrow> e = ValueError"
  by (auto simp: stat_amount_def split: option.splits if_splits)

lemma stat_rate_error: "stat_rate t = Inl e \<Longrightarrow> e = ValueError"
  by (auto simp: stat_rate_def split: option.splits if_splits)

lemma parse_stats_error: "parse_stats page = Inl e \<Longrightarrow> e = ValueError"
  by (auto simp: parse_stats_def split: sum.splits
      dest: stat_count_error stat_amount_error stat_rate_error)

lemma parse_stats_Inr:
  "parse_stats page = Inr st \<longleftrightarrow>
     stat_count (total_count_text page) = Inr (total_count st)
     \<and> stat_amount (total_amount_text page) = Inr (total_amount st)
     \<and> stat_amount (average_amount_text page) = Inr (average_amount st)
     \<and> stat_rate (success_rate_text page) = Inr (success_rate st)"
  by (cases st) (auto simp: parse_stats_def split: sum.splits)

lemma query_data_error:
  "query_data (Inr page) now pid code sd ed = Inl e \<Longrightarrow> e = ValueError"
  by (auto simp: query_data_def rows_loop_result split: sum.splits if_splits
      dest: parse_stats_error)

lemma stub_query:
  "query_data (Inr stub_page) ''2024-02-01T00:00:00'' ''P1'' ''UK9'' ''2024-01-01'' ''2024-01-31''
   = Inr \<lparr>response_status = ''success'',
          data = [\<lparr>id' = ''R1'', date = ''2024-01-02'', amount = Finite 12000, status = ''ok'',
                    details = ''first'', profit = Some (Finite 14400)\<rparr>,
                  \<lparr>id' = ''R2'', date = ''2024-01-03'', amount = Finite 300, status = ''ok'',
                    details = ''second'', profit = Some (Finite 240)\<rparr>],
          stats = \<lparr>total_count = 2, total_amount = Finite 12300,
                    average_amount = Finite 6150, success_rate = Finite (95 / 100)\<rparr>,
          query_info = \<lparr>project_id = ''P1'', uk_code = ''UK9'', start_date = ''2024-01-01'',
                          end_date = ''2024-01-31'', timestamp = ''2024-02-01T00:00:00''\<rparr>\<rparr>"
  by (simp add: query_data_def stub_stats stub_rows apply_profit_def PROFIT_COEFFICIENTS_def)

subsection \<open>Profit derivation\<close>

text \<open>
  Claim C2. Every record of a query result has its profit derived from its amount by the
  three-tier rule with strict thresholds: above 10000 the amount is multiplied by the
  high-value coefficient 1.2, below 1000 by the low-value coefficient 0.8, and otherwise
  by the default coefficient 1.0. An amount of exactly 10000 and an amount of exactly
  1000 both use the default coefficient.
\<close>

theorem profit_three_tiers:
  assumes "query_data fetched now pid code sd ed = Inr q" and "r \<in> set (data q)"
  shows "profit r = Some (float_mul (amount r)
            (if float_gt (amount r) 10000 then 1.2
             else if float_lt (amount r) 1000 then 0.8 else 1.0))
         \<and> (\<forall>a. amount r = Finite a \<longrightarrow>
               profit r = Some (Finite (if a > 10000 then a * 1.2
                                        else if a < 1000 then a * 0.8 else a * 1.0)))
         \<and> (amount r = Finite 10000 \<longrightarrow> profit r = Some (Finite (10000 * 1.0)))
         \<and> (amount r = Finite 1000 \<longrightarrow> profit r = Some (Finite (1000 * 1.0)))"
proof -
  from query_data_Inr [OF assms(1)] assms(2)
  obtain r0 where r: "r = apply_profit r0" by auto
  have p: "profit r = Some (float_mul (amount r)
            (if float_gt (amount r) 10000 then 1.2
             else if float_lt (amount r) 1000 then 0.8 else 1.0))"
    unfolding r by (simp add: profit_apply_profit amount_apply_profit)
  show ?thesis
    using p by auto
qed

theorem profit_three_tiers_witness:
  "query_data (Inr stub_page) ''2024-02-01T00:00:00'' ''P1'' ''UK9'' ''2024-01-01'' ''2024-01-31''
   = Inr \<lparr>response_status = ''success'',
          data = [\<lparr>id' = ''R1'', date = ''2024-01-02'', amount = Finite 12000, status = ''ok'',
                    details = ''first'', profit = Some (Finite 14400)\<rparr>,
                  \<lparr>id' = ''R2'', date = ''2024-01-03'', amount = Finite 300, status = ''ok'',
                    details = ''second'', profit = Some (Finite 240)\<rparr>],
          stats = \<lparr>total_count = 2, total_amount = Finite 12300,
                    average_amount = Finite 6150, success_rate = Finite (95 / 100)\<rparr>,
          query_info = \<lparr>project_id = ''P1'', uk_code = ''UK9'', start_date = ''2024-01-01'',
                          end_date = ''2024-01-31'', timestamp = ''2024-02-01T00:00:00''\<rparr>\<rparr>
   \<and> profit \<lparr>id' = ''R1'', date = ''2024-01-02'', amount = Finite 12000, status = ''ok'',
               details = ''first'', profit = Some (Finite 14400)\<rparr>
       = Some (float_mul (Finite 12000) 1.2)
   \<and> profit \<lparr>id' = ''R2'', date = ''2024-01-03'', amount = Finite 300, status = ''ok'',
               details = ''second'', profit = Some (Finite 240)\<rparr>
       = Some (float_mul (Finite 300) 0.8)"
  using
    profit_three_tiers [OF stub_query,
      of "\<lparr>id' = ''R1'', date = ''2024-01-02'', amount = Finite 12000, status = ''ok'',
            details = ''first'', profit = Some (Finite 14400)\<rparr>"]
    profit_three_tiers [OF stub_query,
      of "\<lparr>id' = ''R2'', date = ''2024-01-03'', amount = Finite 300, status = ''ok'',
            details = ''second'', profit = Some (Finite 240)\<rparr>"]
  by (simp add: stub_query)

subsection \<open>Ragged rows\<close>

text \<open>
  Claim C6. For every list of result rows, a row with fewer than five cells is skipped and
  contributes no record, and of a row with five or more cells exactly the first five are
  consumed: the loop gives the same outcome on the rows of at least five cells cut to
  their first five cells. Whenever the loop returns, its records are the entries built,
  in order, from the rows of at least five cells, each from the cells 0 to 4 of its row.
\<close>

theorem ragged_rows:
  "rows_loop [] rs = rows_loop [] (map (take 5) (filter (\<lambda>cells. 5 \<le> length cells) rs))
   \<and> (rows_loop [] rs = Inr results \<longrightarrow>
        results = map (\<lambda>cells. row_result cells (the (py_float (clean_amount (cells ! 2)))))
                      (filter (\<lambda>cells. 5 \<le> length cells) rs)
        \<and> list_all (\<lambda>cells. py_float (clean_amount (cells ! 2)) \<noteq> None)
                    (filter (\<lambda>cells. 5 \<le> length cells) rs))"
proof -
  let ?kept = "filter (\<lambda>cells. 5 \<le> length cells) rs"
  have a: "list_all (\<lambda>c. py_float (clean_amount (c ! 2)) \<noteq> None) (map (take 5) ?kept)
           = list_all (\<lambda>c. py_float (clean_amount (c ! 2)) \<noteq> None) ?kept"
    by (induction rs) auto
  have b: "map (\<lambda>c. row_result c (the (py_float (clean_amount (c ! 2))))) (map (take 5) ?kept)
           = map (\<lambda>c. row_result c (the (py_float (clean_amount (c ! 2))))) ?kept"
    by (induction rs) (auto simp: row_result_take)
  have "rows_loop [] rs = rows_loop [] (map (take 5) ?kept)"
    unfolding rows_loop_result [of "[]" rs] rows_loop_result [of "[]" "map (take 5) ?kept"]
      filter_take_kept a b ..
  moreover have "rows_loop [] rs = Inr results \<longrightarrow>
        results = map (\<lambda>cells. row_result cells (the (py_float (clean_amount (cells ! 2))))) ?kept
        \<and> list_all (\<lambda>cells. py_float (clean_amount (cells ! 2)) \<noteq> None) ?kept"
    by (simp add: rows_loop_result [of "[]" rs] split: if_splits)
  ultimately show ?thesis by blast
qed

theorem ragged_rows_witness:
  "rows_loop [] ragged_table =
     Inr [\<lparr>id' = ''R2'', date = ''2024-01-03'', amount = Finite 300, status = ''ok'',
            details = ''second'', profit = None\<rparr>]
   \<and> rows_loop [] ragged_table
       = rows_loop [] [[''R2'', ''2024-01-03'', ''300'', ''ok'', ''second'']]"
  using ragged_rows [of ragged_table
      "[\<lparr>id' = ''R2'', date = ''2024-01-03'', amount = Finite 300, status = ''ok'',
          details = ''second'', profit = None\<rparr>]"]
  by (simp add: ragged_table_def float_300 row_result_def strip_stub)

subsection \<open>Coercion failures\<close>

text \<open>
  Claim C10. The zero default applies only to a missing or empty text. When an aggregate
  field has a non-empty text that its coercion cannot read once the text is cleaned, or a
  row of at least five cells has an amount cell that \<open>float\<close> cannot read once it is
  cleaned, the \<open>ValueError\<close> of the coercion leaves \<open>query_data\<close>: the whole query fails, no
  field is defaulted and no row is skipped. Through the cache decorator the error reaches
  the caller and nothing is stored.
\<close>

theorem coercion_failure_fails_query:
  assumes "(\<exists>s. total_count_text page = Some s \<and> s \<noteq> [] \<and> py_int (clean_count s) = None)
         \<or> (\<exists>s. total_amount_text page = Some s \<and> s \<noteq> [] \<and> py_float (clean_amount s) = None)
         \<or> (\<exists>s. average_amount_text page = Some s \<and> s \<noteq> [] \<and> py_float (clean_amount s) = None)
         \<or> (\<exists>s. success_rate_text page = Some s \<and> s \<noteq> [] \<and> py_float (clean_rate s) = None)
         \<or> (\<exists>cells \<in> set (rows page).
               5 \<le> length cells \<and> py_float (clean_amount (cells ! 2)) = None)"
  shows "query_data (Inr page) now pid code sd ed = Inl ValueError
         \<and> (cache_check timeout query_cache cache_key checked_at = None \<longrightarrow>
              wrapper timeout (\<lambda>k. query_data (Inr page) now pid code sd ed) cache_key
                query_cache checked_at stored_at current_time
              = (Inl ValueError, query_cache, 1))"
proof -
  have "\<not> (\<exists>q. query_data (Inr page) now pid code sd ed = Inr q)"
  proof
    assume "\<exists>q. query_data (Inr page) now pid code sd ed = Inr q"
    then obtain q where q: "query_data (Inr page) now pid code sd ed = Inr q" ..
    from query_data_Inr [OF q] obtain st results where
      st: "parse_stats page = Inr st" and rs: "rows_loop [] (rows page) = Inr results"
      by auto
    from st have
      c: "stat_count (total_count_text page) = Inr (total_count st)" and
      a: "stat_amount (total_amount_text page) = Inr (total_amount st)" and
      v: "stat_amount (average_amount_text page) = Inr (average_amount st)" and
      r: "stat_rate (success_rate_text page) = Inr (success_rate st)"
      by (simp_all add: parse_stats_Inr)
    from rs have l: "list_all (\<lambda>c. py_float (clean_amount (c ! 2)) \<noteq> None)
                       (filter (\<lambda>c. 5 \<le> length c) (rows page))"
      by (simp add: rows_loop_result split: if_splits)
    from assms show False
    proof (elim disjE exE bexE conjE)
      fix s assume "total_count_text page = Some s" "s \<noteq> []" "py_int (clean_count s) = None"
      with c show False by (simp add: stat_count_def)
    next
      fix s assume "total_amount_text page = Some s" "s \<noteq> []" "py_float (clean_amount s) = None"
      with a show False by (simp add: stat_amount_def)
    next
      fix s assume "average_amount_text page = Some s" "s \<noteq> []" "py_float (clean_amount s) = None"
      with v show False by (simp add: stat_amount_def)
    next
      fix s assume "success_rate_text page = Some s" "s \<noteq> []" "py_float (clean_rate s) = None"
      with r show False by (simp add: stat_rate_def)
    next
      fix cells assume "cells \<in> set (rows page)" "5 \<le> length cells"
        "py_float (clean_amount (cells ! 2)) = None"
      with l show False by (auto simp: list_all_iff)
    qed
  qed
  then obtain e where "query_data (Inr page) now pid code sd ed = Inl e"
    by (cases "query_data (Inr page) now pid code sd ed") auto
  with query_data_error [OF this]
  have f: "query_data (Inr page) now pid code sd ed = Inl ValueError"
    by simp
  then show ?thesis by (simp add: wrapper_def)
qed

theorem coercion_failure_fails_query_witness:
  "total_count_text unreadable_count_page = Some ''n/a''
   \<and> py_int (clean_count ''n/a'') = None
   \<and> query_data (Inr unreadable_count_page) ''2024-02-01T00:00:00'' ''P1'' ''UK9''
        ''2024-01-01'' ''2024-01-31'' = Inl ValueError
   \<and> rows unreadable_amount_page = [[''R1'', ''2024-01-02'', ''n/a'', ''ok'', ''first'']]
   \<and> py_float (clean_amount ''n/a'') = None
   \<and> query_data (Inr unreadable_amount_page) ''2024-02-01T00:00:00'' ''P1'' ''UK9''
        ''2024-01-01'' ''2024-01-31'' = Inl ValueError"
proof -
  have c: "\<exists>s. total_count_text unreadable_count_page = Some s \<and> s \<noteq> []
             \<and> py_int (clean_count s) = None"
    by (simp add: unreadable_count_page_def int_unreadable)
  have r: "\<exists>cells \<in> set (rows unreadable_amount_page).
             5 \<le> length cells \<and> py_float (clean_amount (cells ! 2)) = None"
    by (simp add: unreadable_amount_page_def float_unreadable)
  have q1: "query_data (Inr unreadable_count_page) ''2024-02-01T00:00:00'' ''P1'' ''UK9''
        ''2024-01-01'' ''2024-01-31'' = Inl ValueError"
    by (rule coercion_failure_fails_query [OF disjI1 [OF c], THEN conjunct1])
  have q2: "query_data (Inr unreadable_amount_page) ''2024-02-01T00:00:00'' ''P1'' ''UK9''
        ''2024-01-01'' ''2024-01-31'' = Inl ValueError"
    by (rule coercion_failure_fails_query
          [OF disjI2 [OF disjI2 [OF disjI2 [OF disjI2 [OF r]]]], THEN conjunct1])
  show ?thesis
    using q1 q2
    by (simp add: unreadable_count_page_def unreadable_amount_page_def int_unreadable
        float_unreadable)
qed

subsection \<open>Aggregate fields\<close>






lemma yen_count: "stat_count (Some [yen, CHR ''2'']) = Inl ValueError"
  by (simp add: stat_count_def text_defs number_defs)

lemma comma_rate: "stat_rate (Some ''1,234%'') = Inl ValueError"
  by (simp add: stat_rate_def text_defs number_defs)



text \<open>
  Claim C7, as stated, fails: the claim has every aggregate field stripped of commas and
  currency signs before it is coerced. The total count keeps a currency sign and the
  success rate keeps commas, so the texts \<open>\<yen>2\<close> and \<open>1,234%\<close> make the whole parse raise,
  although a count of \<open>2\<close> is read.
\<close>

theorem aggregate_cleaning_counterexample:
  "parse_stats yen_count_page = Inl ValueError
   \<and> stat_count (Some ''2'') = Inr 2
   \<and> parse_stats comma_rate_page = Inl ValueError"
  by (simp add: parse_stats_def stub_page_def yen_count_page_def comma_rate_page_def
      yen_count comma_rate stub_count stub_total stub_average)

text \<open>
  Claim C7, amended. A missing or empty aggregate text gives 0 for its field and cannot
  fail the call. A non-empty text loses its surrounding white space and then: the total
  count loses its commas and is coerced by \<open>int\<close>; the total and the average amount lose
  their commas and currency signs and are coerced by \<open>float\<close>; the success rate loses its
  percent signs, is coerced by \<open>float\<close> and divided by 100. The stats of a returned
  result are the four values so obtained.
\<close>

theorem aggregate_fields_cleaning:
  "stat_count None = Inr 0 \<and> stat_count (Some []) = Inr 0
   \<and> stat_amount None = Inr (Finite 0) \<and> stat_amount (Some []) = Inr (Finite 0)
   \<and> stat_rate None = Inr (Finite 0) \<and> stat_rate (Some []) = Inr (Finite 0)
   \<and> (s \<noteq> [] \<longrightarrow>
        stat_count (Some s) =
          (case py_int (filter (\<lambda>c. c \<noteq> CHR '','') (strip s)) of
             None \<Rightarrow> Inl ValueError | Some n \<Rightarrow> Inr n)
        \<and> stat_amount (Some s) =
          (case py_float (filter (\<lambda>c. c \<noteq> CHR '','' \<and> c \<noteq> yen) (strip s)) of
             None \<Rightarrow> Inl ValueError | Some x \<Rightarrow> Inr x)
        \<and> stat_rate (Some s) =
          (case py_float (filter (\<lambda>c. c \<noteq> CHR ''%'') (strip s)) of
             None \<Rightarrow> Inl ValueError | Some x \<Rightarrow> Inr (float_div x 100)))
   \<and> (query_data (Inr page) now pid code sd ed = Inr q \<longrightarrow>
        stat_count (total_count_text page) = Inr (total_count (stats q))
        \<and> stat_amount (total_amount_text page) = Inr (total_amount (stats q))
        \<and> stat_amount (average_amount_text page) = Inr (average_amount (stats q))
        \<and> stat_rate (success_rate_text page) = Inr (success_rate (stats q)))"
proof -
  have d: "stat_count None = Inr 0 \<and> stat_count (Some []) = Inr 0
   \<and> stat_amount None = Inr (Finite 0) \<and> stat_amount (Some []) = Inr (Finite 0)
   \<and> stat_rate None = Inr (Finite 0) \<and> stat_rate (Some []) = Inr (Finite 0)"
    by (simp add: stat_count_def stat_amount_def stat_rate_def)
  have f: "filter (\<lambda>c. c \<noteq> yen) (filter (\<lambda>c. c \<noteq> CHR '','') (strip s))
           = filter (\<lambda>c. c \<noteq> CHR '','' \<and> c \<noteq> yen) (strip s)"
    by (simp add: conj_commute)
  have c: "s \<noteq> [] \<longrightarrow>
        stat_count (Some s) =
          (case py_int (filter (\<lambda>c. c \<noteq> CHR '','') (strip s)) of
             None \<Rightarrow> Inl ValueError | Some n \<Rightarrow> Inr n)
        \<and> stat_amount (Some s) =
          (case py_float (filter (\<lambda>c. c \<noteq> CHR '','' \<and> c \<noteq> yen) (strip s)) of
             None \<Rightarrow> Inl ValueError | Some x \<Rightarrow> Inr x)
        \<and> stat_rate (Some s) =
          (case py_float (filter (\<lambda>c. c \<noteq> CHR ''%'') (strip s)) of
             None \<Rightarrow> Inl ValueError | Some x \<Rightarrow> Inr (float_div x 100))"
    by (simp add: stat_count_def stat_amount_def stat_rate_def clean_count_def clean_amount_def
        clean_rate_def replace_empty f)
  have q: "query_data (Inr page) now pid code sd ed = Inr q \<longrightarrow>
        stat_count (total_count_text page) = Inr (total_count (stats q))
        \<and> stat_amount (total_amount_text page) = Inr (total_amount (stats q))
        \<and> stat_amount (average_amount_text page) = Inr (average_amount (stats q))
        \<and> stat_rate (success_rate_text page) = Inr (success_rate (stats q))"
  proof
    assume "query_data (Inr page) now pid code sd ed = Inr q"
    from query_data_Inr [OF this] have "parse_stats page = Inr (stats q)" by auto
    then show "stat_count (total_count_text page) = Inr (total_count (stats q))
        \<and> stat_amount (total_amount_text page) = Inr (total_amount (stats q))
        \<and> stat_amount (average_amount_text page) = Inr (average_amount (stats q))
        \<and> stat_rate (success_rate_text page) = Inr (success_rate (stats q))"
      by (simp add: parse_stats_Inr)
  qed
  from d c q show ?thesis by blast
qed

lemma empty_query:
  "query_data (Inr empty_page) ''2024-02-01T00:00:00'' ''P1'' ''UK9'' ''2024-01-01'' ''2024-01-31''
   = Inr \<lparr>response_status = ''success'', data = [],
          stats = \<lparr>total_count = 0, total_amount = Finite 0,
                    average_amount = Finite 0, success_rate = Finite 0\<rparr>,
          query_info = \<lparr>project_id = ''P1'', uk_code = ''UK9'', start_date = ''2024-01-01'',
                          end_date = ''2024-01-31'', timestamp = ''2024-02-01T00:00:00''\<rparr>\<rparr>"
  by (simp add: query_data_def parse_stats_def empty_page_def stat_count_def stat_amount_def
      stat_rate_def)

theorem aggregate_fields_cleaning_witness:
  "''6,150.00'' \<noteq> []
   \<and> stat_amount (Some ''6,150.00'') = Inr (Finite 6150)
   \<and> query_data (Inr empty_page) ''2024-02-01T00:00:00'' ''P1'' ''UK9'' ''2024-01-01''
        ''2024-01-31''
      = Inr \<lparr>response_status = ''success'', data = [],
             stats = \<lparr>total_count = 0, total_amount = Finite 0,
                       average_amount = Finite 0, success_rate = Finite 0\<rparr>,
             query_info = \<lparr>project_id = ''P1'', uk_code = ''UK9'', start_date = ''2024-01-01'',
                             end_date = ''2024-01-31'', timestamp = ''2024-02-01T00:00:00''\<rparr>\<rparr>
   \<and> stat_count (total_count_text empty_page) = Inr 0
   \<and> stat_rate (success_rate_text empty_page) = Inr (Finite 0)"
  using aggregate_fields_cleaning [of "''6,150.00''" empty_page "''2024-02-01T00:00:00''"
      "''P1''" "''UK9''" "''2024-01-01''" "''2024-01-31''"
      "\<lparr>response_status = ''success'', data = [],
          stats = \<lparr>total_count = 0, total_amount = Finite 0,
                    average_amount = Finite 0, success_rate = Finite 0\<rparr>,
          query_info = \<lparr>project_id = ''P1'', uk_code = ''UK9'', start_date = ''2024-01-01'',
                          end_date = ''2024-01-31'', timestamp = ''2024-02-01T00:00:00''\<rparr>\<rparr>"]
    empty_query
  by (simp add: stub_average)

subsection \<open>Bounds of the aggregate statistics\<close>




subsection \<open>The result cache\<close>

text \<open>
  Claim C3. For every key, a call that finds an entry stored at time \<open>T\<close> returns the
  cached result without invoking the wrapped function whenever \<open>now - T < timeout\<close>.
  Whenever there is no entry, or \<open>now - T \<ge> timeout\<close>, it invokes the wrapped function
  once, stores the result paired with the clock reading of the store, and returns that
  result. The scan that follows the store keeps the new entry when its own clock reading
  is at most the timeout after the reading of the store.
\<close>

theorem get_or_compute:
  "(query_cache cache_key = Some (r, T) \<and> now - T < timeout \<longrightarrow>
      wrapper timeout func cache_key query_cache now stored_at current_time
        = (Inr r, query_cache, 0))
   \<and> ((query_cache cache_key = None
         \<or> (\<exists>r0 T. query_cache cache_key = Some (r0, T) \<and> now - T \<ge> timeout))
        \<and> func cache_key = Inr r' \<longrightarrow>
      wrapper timeout func cache_key query_cache now stored_at current_time
        = (Inr r',
           purge timeout current_time (query_cache(cache_key \<mapsto> (r', stored_at))),
           1)
      \<and> (current_time - stored_at \<le> timeout \<longrightarrow>
            purge timeout current_time (query_cache(cache_key \<mapsto> (r', stored_at))) cache_key
              = Some (r', stored_at)))"
  by (auto simp: wrapper_def cache_check_def cache_store_def purge_def)

theorem get_or_compute_witness:
  "example_cache ''k'' = Some (7, 100) \<and> (399 :: real) - 100 < 300
   \<and> wrapper 300 (\<lambda>k. Inr 9) ''k'' example_cache 399 399 399 = (Inr 7, example_cache, 0)
   \<and> (401 :: real) - 100 \<ge> 300 \<and> (402 :: real) - 402 \<le> 300
   \<and> fst (wrapper 300 (\<lambda>k. Inr 9) ''k'' example_cache 401 402 402) = Inr 9
   \<and> snd (snd (wrapper 300 (\<lambda>k. Inr 9) ''k'' example_cache 401 402 402)) = 1
   \<and> fst (snd (wrapper 300 (\<lambda>k. Inr 9) ''k'' example_cache 401 402 402)) ''k'' = Some (9, 402)"
  using get_or_compute [of example_cache "''k''" 7 100 399 300 "\<lambda>k. Inr 9" 399 399 9]
    get_or_compute [of example_cache "''k''" 7 100 401 300 "\<lambda>k. Inr 9" 402 402 9]
  by (auto simp: example_cache_def)

text \<open>
  Claim C4, as stated, fails twice. An entry whose age equals the timeout exactly is not
  valid, since a lookup at age 300 with timeout 300 misses, but the scan after a store
  deletes only entries older than the timeout, so the entry is still in the cache after
  the store. And a cache access that hits purges nothing: an entry of age 900 stays in
  the cache through a hit on another key.
\<close>

theorem purge_boundary_counterexample:
  "fst (snd (wrapper 300 (\<lambda>k. Inr 2) ''new'' [''old'' \<mapsto> (1 :: nat, 100)] 400 400 400)) ''old''
     = Some (1, 100)
   \<and> \<not> ((400 :: real) - 100 < 300)
   \<and> cache_check 300
        (fst (snd (wrapper 300 (\<lambda>k. Inr 2) ''new'' [''old'' \<mapsto> (1 :: nat, 100)] 400 400 400)))
        ''old'' 400 = None
   \<and> wrapper 300 (\<lambda>k. Inr 2) ''k'' aged_cache 1000 1000 1000 = (Inr 7, aged_cache, 0)
   \<and> aged_cache ''old'' = Some (1, 100)"
  by (simp add: wrapper_def cache_check_def cache_store_def purge_def aged_cache_def)

text \<open>
  Claim C4, amended. An entry is valid, that is a lookup returns it, iff
  \<open>now - timestamp < timeout\<close>. Entries are purged only as part of a store: a hit, and a
  miss whose computation raises, leave the cache as it was. After every store the cache
  contains no entry whose age at the time of the scan exceeds the timeout, and every
  other entry that is still valid at the time of the scan is kept.
\<close>

theorem cache_validity_and_purge:
  "(cache_check timeout query_cache cache_key now = Some r
      \<longleftrightarrow> (\<exists>T. query_cache cache_key = Some (r, T) \<and> now - T < timeout))
   \<and> (cache_check timeout query_cache cache_key now = Some r \<longrightarrow>
        wrapper timeout func cache_key query_cache now stored_at current_time
          = (Inr r, query_cache, 0))
   \<and> (cache_check timeout query_cache cache_key now = None \<and> func cache_key = Inl e \<longrightarrow>
        wrapper timeout func cache_key query_cache now stored_at current_time
          = (Inl e, query_cache, 1))
   \<and> (cache_check timeout query_cache cache_key now = None \<and> func cache_key = Inr r' \<longrightarrow>
        (\<forall>k v T. fst (snd (wrapper timeout func cache_key query_cache now stored_at current_time)) k
                    = Some (v, T) \<longrightarrow> current_time - T \<le> timeout)
        \<and> (\<forall>k v T. k \<noteq> cache_key \<and> query_cache k = Some (v, T) \<and> current_time - T < timeout
             \<longrightarrow> fst (snd (wrapper timeout func cache_key query_cache now stored_at
                               current_time)) k = Some (v, T)))"
proof -
  have 1: "cache_check timeout query_cache cache_key now = Some r
      \<longleftrightarrow> (\<exists>T. query_cache cache_key = Some (r, T) \<and> now - T < timeout)"
    by (auto simp: cache_check_def split: option.splits)
  have 2: "cache_check timeout query_cache cache_key now = Some r \<longrightarrow>
        wrapper timeout func cache_key query_cache now stored_at current_time
          = (Inr r, query_cache, 0)"
    by (simp add: wrapper_def)
  have 3: "cache_check timeout query_cache cache_key now = None \<and> func cache_key = Inl e \<longrightarrow>
        wrapper timeout func cache_key query_cache now stored_at current_time
          = (Inl e, query_cache, 1)"
    by (simp add: wrapper_def)
  have 4: "cache_check timeout query_cache cache_key now = None \<and> func cache_key = Inr r' \<longrightarrow>
        (\<forall>k v T. fst (snd (wrapper timeout func cache_key query_cache now stored_at current_time)) k
                    = Some (v, T) \<longrightarrow> current_time - T \<le> timeout)
        \<and> (\<forall>k v T. k \<noteq> cache_key \<and> query_cache k = Some (v, T) \<and> current_time - T < timeout
             \<longrightarrow> fst (snd (wrapper timeout func cache_key query_cache now stored_at
                               current_time)) k = Some (v, T))"
    by (auto simp: wrapper_def cache_store_def purge_def split: option.splits if_splits)
  from 1 2 3 4 show ?thesis by blast
qed

theorem cache_validity_and_purge_witness:
  "cache_check 300 aged_cache ''k'' 1000 = Some 7
   \<and> wrapper 300 (\<lambda>k. Inr 2) ''k'' aged_cache 1000 1000 1000 = (Inr 7, aged_cache, 0)
   \<and> cache_check 300 aged_cache ''new'' 1000 = None
   \<and> fst (snd (wrapper 300 (\<lambda>k. Inr 2) ''new'' aged_cache 1000 1000 1000)) ''old'' = None
   \<and> fst (snd (wrapper 300 (\<lambda>k. Inr 2) ''new'' aged_cache 1000 1000 1000)) ''k'' = Some (7, 900)"
  using cache_validity_and_purge [of 300 aged_cache "''k''" 1000 7 "\<lambda>k. Inr 2" 1000 1000]
    cache_validity_and_purge [of 300 aged_cache "''new''" 1000 7 "\<lambda>k. Inr 2" 1000 1000 _ 2]
  by (simp add: aged_cache_def cache_check_def wrapper_def cache_store_def purge_def)

subsection \<open>Concurrent misses\<close>

lemma run_append:
  "run timeout func key (xs @ ys) s = run timeout func key ys (run timeout func key xs s)"
  by (simp add: run_def)

lemma run_snoc:
  "run timeout func key (xs @ [ev]) s = step timeout func key (run timeout func key xs s) ev"
  by (simp add: run_def)

text \<open>One caller alone goes through the three steps of \<open>wrapper\<close>.\<close>

lemma single_caller:
  "run timeout func key [(c, now, x), (c, y, z), (c, stored_at, current_time)] (initial query_cache)
   = (case wrapper timeout func key query_cache now stored_at current_time of
        (res, cache', n) \<Rightarrow>
          \<lparr>table = cache', calls = n, phase_of = (\<lambda>d. Checking)(c := Returned res)\<rparr>)"
  by (auto simp: run_def step_def initial_def wrapper_def split: option.splits sum.splits)

lemma prefix_invariant:
  assumes "\<forall>ev \<in> set pre. cache_check timeout query_cache key (fst (snd ev)) = None"
    and "turns First pre \<le> 2" and "turns Second pre \<le> 2"
  shows "table (run timeout func key pre (initial query_cache)) = query_cache
       \<and> (\<forall>c. (turns c pre = 0 \<longrightarrow> phase_of (run timeout func key pre (initial query_cache)) c = Checking)
            \<and> (turns c pre = 1 \<longrightarrow> phase_of (run timeout func key pre (initial query_cache)) c = Computing)
            \<and> (turns c pre = 2 \<longrightarrow>
                 (\<exists>r. phase_of (run timeout func key pre (initial query_cache)) c = Storing r)
                 \<or> (\<exists>e. phase_of (run timeout func key pre (initial query_cache)) c = Returned (Inl e))))
       \<and> calls (run timeout func key pre (initial query_cache))
           = (if turns First pre = 2 then 1 else 0) + (if turns Second pre = 2 then 1 else 0)"
  using assms
proof (induction pre rule: rev_induct)
  case Nil
  then show ?case by (simp add: run_def initial_def turns_def)
next
  case (snoc ev pre)
  obtain c t t' where ev: "ev = (c, t, t')" by (cases ev)
  let ?s = "run timeout func key pre (initial query_cache)"
  have le: "turns First pre \<le> 2" "turns Second pre \<le> 2"
    using snoc.prems by (auto simp: turns_def split: if_splits)
  have miss: "cache_check timeout query_cache key t = None"
    using snoc.prems(1) ev by simp
  have ih: "table ?s = query_cache"
    "\<And>c. turns c pre = 0 \<Longrightarrow> phase_of ?s c = Checking"
    "\<And>c. turns c pre = 1 \<Longrightarrow> phase_of ?s c = Computing"
    "calls ?s = (if turns First pre = 2 then 1 else 0) + (if turns Second pre = 2 then 1 else 0)"
    "\<And>c. turns c pre = 2 \<Longrightarrow> (\<exists>r. phase_of ?s c = Storing r) \<or> (\<exists>e. phase_of ?s c = Returned (Inl e))"
    using snoc.IH le snoc.prems(1) by auto
  have tc: "turns c (pre @ [ev]) = Suc (turns c pre)"
    and to: "\<And>d. d \<noteq> c \<Longrightarrow> turns d (pre @ [ev]) = turns d pre"
    by (simp_all add: turns_def ev)
  have c01: "turns c pre = 0 \<or> turns c pre = 1"
    using snoc.prems(2,3) tc by (cases c) auto
  then show ?case
  proof
    assume z: "turns c pre = 0"
    then have p: "phase_of ?s c = Checking" by (rule ih(2))
    have st: "run timeout func key (pre @ [ev]) (initial query_cache)
              = ?s\<lparr>phase_of := (phase_of ?s)(c := Computing)\<rparr>"
      by (simp add: run_snoc step_def ev p ih(1) miss)
    show ?thesis
      unfolding st using ih z tc to
      by (cases c) (auto simp: turns_def ev)
  next
    assume o: "turns c pre = 1"
    then have p: "phase_of ?s c = Computing" by (rule ih(3))
    show ?thesis
    proof (cases "func key")
      case (Inl e)
      have st: "run timeout func key (pre @ [ev]) (initial query_cache)
              = ?s\<lparr>calls := calls ?s + 1, phase_of := (phase_of ?s)(c := Returned (Inl e))\<rparr>"
        by (simp add: run_snoc step_def ev p Inl)
      show ?thesis
        unfolding st using ih o tc to
        by (cases c) (auto simp: turns_def ev)
    next
      case (Inr r)
      have st: "run timeout func key (pre @ [ev]) (initial query_cache)
              = ?s\<lparr>calls := calls ?s + 1, phase_of := (phase_of ?s)(c := Storing r)\<rparr>"
        by (simp add: run_snoc step_def ev p Inr)
      show ?thesis
        unfolding st using ih o tc to
        by (cases c) (auto simp: turns_def ev)
    qed
  qed
qed

lemma step_no_checking:
  assumes "\<forall>c. phase_of s c \<noteq> Checking"
  shows "(\<forall>c. phase_of (step timeout func key s ev) c \<noteq> Checking)
       \<and> calls (step timeout func key s ev) + pending (step timeout func key s ev)
           = calls s + pending s"
proof -
  obtain c t t' where ev: "ev = (c, t, t')" by (cases ev)
  show ?thesis
    using assms
    by (cases c; cases "phase_of s c"; cases "func key")
       (auto simp: step_def ev pending_def split: caller.splits)
qed

lemma run_no_checking:
  assumes "\<forall>c. phase_of s c \<noteq> Checking"
  shows "(\<forall>c. phase_of (run timeout func key post s) c \<noteq> Checking)
       \<and> calls (run timeout func key post s) + pending (run timeout func key post s)
           = calls s + pending s"
  using assms
proof (induction post rule: rev_induct)
  case Nil
  then show ?case by (simp add: run_def)
next
  case (snoc ev post)
  then show ?case
    using step_no_checking [of "run timeout func key post s" timeout func key ev]
    by (simp add: run_snoc)
qed
text \<open>
  Claim C5. Two concurrent calls with the same key and no valid entry both observe a miss
  and both invoke the wrapped function, which is invoked exactly twice. The calls are
  concurrent when each caller makes its check before either caller stores: \<open>pre\<close> is the
  schedule up to the first store, in which each caller has taken one or two steps, and
  \<open>post\<close> is the rest, after which both calls have returned. Nothing is held between a
  caller's check and its call of the wrapped function, so the other caller's check can
  come in between.
\<close>

theorem concurrent_misses_both_fetch:
  assumes "\<forall>ev \<in> set pre. cache_check timeout query_cache key (fst (snd ev)) = None"
    and "turns First pre = 1 \<or> turns First pre = 2"
    and "turns Second pre = 1 \<or> turns Second pre = 2"
    and "\<forall>c. \<exists>x. phase_of (run timeout func key (pre @ post) (initial query_cache)) c = Returned x"
  shows "calls (run timeout func key (pre @ post) (initial query_cache)) = 2
       \<and> (\<forall>c. phase_of (run timeout func key pre (initial query_cache)) c = Computing
               \<or> (\<exists>r. phase_of (run timeout func key pre (initial query_cache)) c = Storing r)
               \<or> (\<exists>e. phase_of (run timeout func key pre (initial query_cache)) c = Returned (Inl e)))"
proof -
  let ?s1 = "run timeout func key pre (initial query_cache)"
  let ?s2 = "run timeout func key (pre @ post) (initial query_cache)"
  have le: "turns First pre \<le> 2" "turns Second pre \<le> 2"
    using assms(2,3) by auto
  note inv = prefix_invariant [OF assms(1) le, of func]
  have one: "\<And>c. turns c pre = 1 \<Longrightarrow> phase_of ?s1 c = Computing"
    using inv by blast
  have two: "\<And>c. turns c pre = 2 \<Longrightarrow>
      (\<exists>r. phase_of ?s1 c = Storing r) \<or> (\<exists>e. phase_of ?s1 c = Returned (Inl e))"
    using inv by blast
  have cs: "calls ?s1 = (if turns First pre = 2 then 1 else 0) + (if turns Second pre = 2 then 1 else 0)"
    using inv by blast
  have t12: "\<And>c. turns c pre = 1 \<or> turns c pre = 2"
    using assms(2,3) by (case_tac c) auto
  have missed: "\<forall>c. phase_of ?s1 c = Computing
               \<or> (\<exists>r. phase_of ?s1 c = Storing r)
               \<or> (\<exists>e. phase_of ?s1 c = Returned (Inl e))"
    using t12 one two by blast
  then have nc: "\<forall>c. phase_of ?s1 c \<noteq> Checking"
    by (metis phase.distinct(1,3,5))
  have sum1: "calls ?s1 + pending ?s1 = 2"
    using one [of First] two [of First] one [of Second] two [of Second] assms(2,3) cs
    by (auto simp: pending_def)
  have "calls ?s2 + pending ?s2 = calls ?s1 + pending ?s1"
    using run_no_checking [OF nc, of timeout func key post] by (simp add: run_append)
  moreover have "pending ?s2 = 0"
    using spec [OF assms(4), of First] spec [OF assms(4), of Second]
    by (auto simp: pending_def)
  ultimately have "calls ?s2 = 2" using sum1 by simp
  with missed show ?thesis by blast
qed

lemma overlapping_run:
  "calls (run 300 (\<lambda>k. Inr (5 :: nat)) ''k'' (overlapping_prefix @ overlapping_rest)
     (initial Map.empty)) = 2"
  "phase_of (run 300 (\<lambda>k. Inr (5 :: nat)) ''k'' (overlapping_prefix @ overlapping_rest)
     (initial Map.empty)) First = Returned (Inr 5)"
  "phase_of (run 300 (\<lambda>k. Inr (5 :: nat)) ''k'' (overlapping_prefix @ overlapping_rest)
     (initial Map.empty)) Second = Returned (Inr 5)"
  by (simp_all add: run_def step_def initial_def overlapping_prefix_def overlapping_rest_def
      cache_check_def cache_store_def purge_def)

theorem concurrent_misses_both_fetch_witness:
  "turns First overlapping_prefix = 1 \<and> turns Second overlapping_prefix = 1
   \<and> cache_check 300 (Map.empty :: (string, nat) cache) ''k'' 10 = None
   \<and> cache_check 300 (Map.empty :: (string, nat) cache) ''k'' 11 = None
   \<and> phase_of (run 300 (\<lambda>k. Inr (5 :: nat)) ''k'' (overlapping_prefix @ overlapping_rest)
        (initial Map.empty)) First = Returned (Inr 5)
   \<and> phase_of (run 300 (\<lambda>k. Inr (5 :: nat)) ''k'' (overlapping_prefix @ overlapping_rest)
        (initial Map.empty)) Second = Returned (Inr 5)
   \<and> calls (run 300 (\<lambda>k. Inr (5 :: nat)) ''k'' (overlapping_prefix @ overlapping_rest)
        (initial Map.empty)) = 2"
proof -
  have h1: "\<forall>ev \<in> set overlapping_prefix.
              cache_check 300 (Map.empty :: (string, nat) cache) ''k'' (fst (snd ev)) = None"
    by (simp add: overlapping_prefix_def cache_check_def)
  have t1: "turns First overlapping_prefix = 1" and t2: "turns Second overlapping_prefix = 1"
    by (simp_all add: turns_def overlapping_prefix_def)
  have h4: "\<forall>c. \<exists>x. phase_of (run 300 (\<lambda>k. Inr (5 :: nat)) ''k''
              (overlapping_prefix @ overlapping_rest) (initial Map.empty)) c = Returned x"
  proof
    fix c
    show "\<exists>x. phase_of (run 300 (\<lambda>k. Inr (5 :: nat)) ''k''
              (overlapping_prefix @ overlapping_rest) (initial Map.empty)) c = Returned x"
      by (cases c) (simp_all add: overlapping_run)
  qed
  have c: "calls (run 300 (\<lambda>k. Inr (5 :: nat)) ''k'' (overlapping_prefix @ overlapping_rest)
        (initial Map.empty)) = 2"
    using concurrent_misses_both_fetch [OF h1 disjI1 [OF t1] disjI1 [OF t2] h4] by blast
  have m: "cache_check 300 (Map.empty :: (string, nat) cache) ''k'' 10 = None"
    "cache_check 300 (Map.empty :: (string, nat) cache) ''k'' 11 = None"
    by (simp_all add: cache_check_def)
  from t1 t2 m overlapping_run(2,3) c show ?thesis by blast
qed

text \<open>Two calls of which the second checks after the first has stored invoke it once.\<close>

lemma sequential_callers_fetch_once:
  "calls (run 300 (\<lambda>k. Inr (5 :: nat)) ''k''
      [(First, 10, 10), (First, 11, 11), (First, 12, 12),
       (Second, 13, 13), (Second, 14, 14), (Second, 15, 15)] (initial Map.empty)) = 1"
  by (simp add: run_def step_def initial_def cache_check_def cache_store_def purge_def)

subsection \<open>Recovery of a disconnected browser\<close>

text \<open>
  Claim C1 says that a call of \<open>get_browser_context\<close> that finds the browser object
  disconnected tears the partial state down and relaunches before it returns a context.
  In the state a crash of the browser leaves behind, where both globals are set and
  \<open>is_connected()\<close> is false, the code does neither: \<open>init_playwright\<close> returns at once
  because \<open>playwright_instance\<close> is not \<open>None\<close>, the context is requested from the
  disconnected browser object whatever the library and its launch would do, the globals
  are unchanged, and the probe of the health endpoint still reads \<open>error\<close>.
\<close>

theorem disconnected_browser_not_relaunched:
  "get_browser_context lib new_context
     \<lparr>playwright_instance = Some pw,
      browser_instance = Some \<lparr>browser_id = n, is_connected = False\<rparr>\<rparr>
   = (new_context \<lparr>browser_id = n, is_connected = False\<rparr>,
      \<lparr>playwright_instance = Some pw,
       browser_instance = Some \<lparr>browser_id = n, is_connected = False\<rparr>\<rparr>)
   \<and> playwright_component
        \<lparr>playwright_instance = Some pw,
         browser_instance = Some \<lparr>browser_id = n, is_connected = False\<rparr>\<rparr> = ''error''"
  by (simp add: get_browser_context_def needs_init_def init_playwright_def
      playwright_component_def)

text \<open>
  Both globals are set together and cleared together, so the state above is the only kind
  of state with a disconnected browser that the program reaches: from a state with both
  or neither set, \<open>init_playwright\<close> and \<open>get_browser_context\<close> lead to such a state again.
\<close>

lemma init_playwright_both_or_neither:
  assumes "(playwright_instance s = None) = (browser_instance s = None)"
  shows "(playwright_instance (snd (init_playwright lib s)) = None)
         = (browser_instance (snd (init_playwright lib s)) = None)"
  using assms by (auto simp: init_playwright_def split: sum.splits)

lemma launch_when_nothing_is_running:
  assumes "needs_init s" and "playwright_instance s = None" and "start_outcome lib = Inr pw"
    and "launch_outcome lib = Inr b"
  shows "get_browser_context lib new_context s
         = (new_context b, s\<lparr>playwright_instance := Some pw, browser_instance := Some b\<rparr>)"
  using assms by (simp add: get_browser_context_def init_playwright_def)

subsection \<open>Authentication with omitted credentials\<close>

text \<open>
  Claim C9. A request body that has neither an \<open>auth_key\<close> nor an \<open>app_id\<close> field always
  passes authentication: the handler substitutes the configured defaults for the absent
  fields and \<open>validate_api_key\<close> compares against those same configured values, so it
  returns true, and the handler never answers 401 to such a request.
\<close>

theorem omitted_credentials_pass:
  assumes "map_of d ''auth_key'' = None" and "map_of d ''app_id'' = None"
  shows "validate_api_key cfg
           (dict_get_default d ''auth_key'' (JStr (DEFAULT_AUTH_KEY cfg)))
           (dict_get_default d ''app_id'' (JStr (DEFAULT_APP_ID cfg)))
         \<and> fst (api_query cfg qd (Some d)) \<noteq> 401"
proof -
  have v: "validate_api_key cfg
           (dict_get_default d ''auth_key'' (JStr (DEFAULT_AUTH_KEY cfg)))
           (dict_get_default d ''app_id'' (JStr (DEFAULT_APP_ID cfg)))"
    using assms by (simp add: validate_api_key_def dict_get_default_def)
  have "fst (api_query cfg qd (Some d)) \<noteq> 401"
    using v by (simp add: api_query_def Let_def split: sum.split)
  with v show ?thesis by simp
qed

theorem omitted_credentials_pass_witness:
  "map_of [(''project_id'', JStr ''P1''), (''uk_code'', JStr ''UK9''),
           (''start_date'', JStr ''2024-01-01''), (''end_date'', JStr ''2024-01-31'')] ''auth_key'' = None
   \<and> api_query \<lparr>DEFAULT_AUTH_KEY = ''your-auth-key'', DEFAULT_APP_ID = ''your-app-id''\<rparr>
        (\<lambda>p u s e. Inr ())
        (Some [(''project_id'', JStr ''P1''), (''uk_code'', JStr ''UK9''),
               (''start_date'', JStr ''2024-01-01''), (''end_date'', JStr ''2024-01-31'')])
      = (200, ''success'')"
  using omitted_credentials_pass
    [of "[(''project_id'', JStr ''P1''), (''uk_code'', JStr ''UK9''),
          (''start_date'', JStr ''2024-01-01''), (''end_date'', JStr ''2024-01-31'')]"
        "\<lparr>DEFAULT_AUTH_KEY = ''your-auth-key'', DEFAULT_APP_ID = ''your-app-id''\<rparr>"
        "\<lambda>p u s e. Inr ()"]
  by (simp add: api_query_def dict_get_def dict_get_default_def validate_api_key_def)

end
